theory Spec2Isabelle
  imports Complex_Main
begin

section \<open>Python values used by \<open>fasttext_embedding.py\<close>\<close>

text \<open>
  The module \<open>mindnlp/modules/embeddings/fasttext_embedding.py\<close> defines the class
  \<open>Fasttext\<close> with the operations \<open>__init__\<close>, \<open>from_pretrained\<close>, \<open>construct\<close>,
  \<open>save\<close> and \<open>load\<close>. Every exception the module can raise is a value of \<open>error\<close>;
  a function that may raise returns \<open>error + 'a\<close> with \<open>Inl\<close> for the exception.

  \<^item> \<open>ValueError msg\<close>: the two \<open>raise ValueError(...)\<close> of \<open>from_pretrained\<close>, and the
    \<open>ValueError\<close> Python raises when \<open>word, embedding = line.split(maxsplit=1)\<close> gets
    fewer than two values.
  \<^item> \<open>AssertionError msg\<close>: the \<open>assert\<close> of \<open>load\<close>.
  \<^item> \<open>IndexError\<close>: an index out of range (\<open>shape[1]\<close> of a one-dimensional array,
    \<open>vocab_list[i]\<close>, a gathered id).
  \<^item> \<open>InhomogeneousShape\<close>: the \<open>ValueError\<close> of
    \<open>np.array(embeddings).astype(np.float32)\<close> on rows of different lengths.
  \<^item> \<open>ReshapeError\<close>: \<open>ops.reshape\<close> to a shape of another size.
  \<^item> \<open>KeyError key\<close>: \<open>cls.urls[name]\<close> for a name that is no key.
  \<^item> \<open>FileNotFoundError path\<close>: \<open>open\<close> of a missing file for reading.
  \<^item> \<open>ExternalError msg\<close>: any exception of an external collaborator (download,
    decompression, numpy's text parser, the JSON decoder).
\<close>

datatype error =
    ValueError string
  | AssertionError string
  | IndexError
  | InhomogeneousShape
  | ReshapeError
  | KeyError string
  | FileNotFoundError string
  | ExternalError string

subsection \<open>Strings\<close>

text \<open>
  A Python \<open>str\<close> is a \<open>string\<close>; a character stands for a code point below 256.
  \<open>isspace\<close> is \<open>str.isspace\<close> on one such character, the whitespace set that
  \<open>str.split()\<close> without a separator uses.
\<close>

definition isspace :: "char \<Rightarrow> bool" where
  "isspace c =
     (let n = (of_char c :: nat)
      in (9 \<le> n \<and> n \<le> 13) \<or> (28 \<le> n \<and> n \<le> 32) \<or> n = 133 \<or> n = 160)"

text \<open>
  \<open>line.split(maxsplit=1)\<close>: leading whitespace is dropped, the first word runs to the
  next whitespace, the whitespace after it is dropped, and what is left (trailing
  whitespace included) is the second piece when it is not empty.
\<close>

definition split_maxsplit1 :: "string \<Rightarrow> string list" where
  "split_maxsplit1 s =
     (let s1 = dropWhile isspace s
      in if s1 = [] then []
         else let w = takeWhile (\<lambda>c. \<not> isspace c) s1;
                  r = dropWhile isspace (dropWhile (\<lambda>c. \<not> isspace c) s1)
              in if r = [] then [w] else [w, r])"

text \<open>\<open>sep.join(xs)\<close>.\<close>

fun join :: "string \<Rightarrow> string list \<Rightarrow> string" where
  "join sep [] = []"
| "join sep [x] = x"
| "join sep (x # y # ys) = x @ sep @ join sep (y # ys)"

text \<open>\<open>str(n)\<close> of a non-negative and of an arbitrary Python integer.\<close>

fun str_nat :: "nat \<Rightarrow> string" where
  "str_nat n =
     (if n < 10 then [''0123456789'' ! n]
      else str_nat (n div 10) @ [''0123456789'' ! (n mod 10)])"

declare str_nat.simps [simp del]

definition str_int :: "int \<Rightarrow> string" where
  "str_int i = (if i < 0 then ''-'' @ str_nat (nat (- i)) else str_nat (nat i))"

text \<open>\<open>repr\<close> of a string that holds no quote, backslash or control character.\<close>

definition repr_str :: "string \<Rightarrow> string" where
  "repr_str s = [CHR 0x27] @ s @ [CHR 0x27]"

text \<open>\<open>os.path.join(a, *p)\<close> of \<open>posixpath\<close>.\<close>

fun os_path_join :: "string \<Rightarrow> string list \<Rightarrow> string" where
  "os_path_join a [] = a"
| "os_path_join a (b # bs) =
     os_path_join
       (if b \<noteq> [] \<and> hd b = CHR ''/'' then b
        else if a = [] \<or> last a = CHR ''/'' then a @ b
        else a @ ''/'' @ b) bs"

subsection \<open>Files\<close>

text \<open>
  The file system maps a path to the text of the file there. A file object opened for
  writing is its buffer and its position: \<open>write\<close> overwrites from the position on and
  extends the buffer past its end, \<open>seek\<close> moves the position. The newline written is
  \<open>\n\<close> (the POSIX line separator). Directories are not part of the file system, so
  \<open>os.makedirs(folder, exist_ok=True)\<close> changes nothing in it.
\<close>

type_synonym fs = "string \<rightharpoonup> string"

record pyfile =
  buf :: string
  pos :: nat

definition open_w :: pyfile where
  "open_w = \<lparr>buf = [], pos = 0\<rparr>"

definition f_write :: "string \<Rightarrow> pyfile \<Rightarrow> pyfile" where
  "f_write s f =
     \<lparr>buf = take (pos f) (buf f) @ s @ drop (pos f + length s) (buf f),
      pos = pos f + length s\<rparr>"

definition f_seek :: "nat \<Rightarrow> pyfile \<Rightarrow> pyfile" where
  "f_seek n f = f\<lparr>pos := n\<rparr>"

definition open_r :: "fs \<Rightarrow> string \<Rightarrow> error + string" where
  "open_r w path = (case w path of None \<Rightarrow> Inl (FileNotFoundError path) | Some s \<Rightarrow> Inr s)"

definition os_path_exists :: "fs \<Rightarrow> string \<Rightarrow> bool" where
  "os_path_exists w path = (w path \<noteq> None)"

text \<open>
  Iterating a file opened in text mode yields its lines, each with its newline; with
  the default \<open>newline=None\<close> a \<open>\r\<close>, a \<open>\n\<close> and a \<open>\r\n\<close> each end a line and are read
  as \<open>\n\<close>. The flag says that the previous character was a \<open>\r\<close>, whose line is
  already closed.
\<close>

fun file_lines_from :: "bool \<Rightarrow> string \<Rightarrow> string \<Rightarrow> string list" where
  "file_lines_from cr acc [] = (if acc = [] then [] else [acc])"
| "file_lines_from cr acc (c # cs) =
     (if c = CHR 0x0A then
        (if cr then file_lines_from False acc cs
         else (acc @ [CHR 0x0A]) # file_lines_from False [] cs)
      else if c = CHR 0x0D then (acc @ [CHR 0x0A]) # file_lines_from True [] cs
      else file_lines_from False (acc @ [c]) cs)"

definition file_lines :: "string \<Rightarrow> string list" where
  "file_lines s = file_lines_from False [] s"

text \<open>\<open>islice(file, 1, None)\<close>: every line but the first.\<close>

definition islice1 :: "string list \<Rightarrow> string list" where
  "islice1 ls = drop 1 ls"

section \<open>The data model\<close>

text \<open>
  A two-dimensional numeric array is its shape and its rows; \<open>'v\<close> is the type of the
  scalars (32-bit floats in the program; nothing here computes with them). An array of
  any shape, as \<open>construct\<close> takes and returns, is its shape and its elements in row-major
  order.
\<close>

record 'v ndarray =
  nd_shape :: "nat list"
  nd_rows :: "'v list list"

record 'a tensor =
  shape :: "nat list"
  flat :: "'a list"

text \<open>
  The configuration blob that \<open>save\<close> writes as JSON: the three named hyperparameters
  and the pass-through keyword arguments.
\<close>

record 'j hyper =
  h_dropout :: rat
  h_requires_grad :: bool
  h_train_state :: bool
  h_kwargs :: "(string \<times> 'j) list"

text \<open>
  The external collaborators: the download cache and the archive extraction of
  \<open>mindnlp.utils\<close>, numpy's text parser \<open>np.fromstring(_, dtype=np.float32, sep=' ')\<close>,
  the \<open>i\<close>-th draw of \<open>np.random.rand\<close> (as stored in the 32-bit table), the 32-bit zero of
  \<open>np.zeros\<close>, \<open>str\<close> of one table element, \<open>json.dump\<close> and \<open>json.load\<close> (the latter
  with the binding of the decoded object to the keyword parameters of \<open>__init__\<close>), and
  the dropout transform \<open>self.dropout\<close> of the framework. They are parameters of the
  model. The pass-through keyword arguments have values of a type \<open>'j\<close> that
  \<open>json.dump\<close> can encode.
\<close>

record ('v, 'j) runtime =
  cache_file :: "string \<Rightarrow> string \<Rightarrow> string \<Rightarrow> fs \<Rightarrow> (error + string) \<times> fs"
  unzip :: "string \<Rightarrow> string \<Rightarrow> fs \<Rightarrow> (error + unit) \<times> fs"
  np_fromstring :: "string \<Rightarrow> error + 'v list"
  np_random :: "nat \<Rightarrow> 'v"
  np_zero :: "'v"
  tensor_str :: "'v \<Rightarrow> string"
  json_dump :: "'j hyper \<Rightarrow> string"
  json_load :: "string \<Rightarrow> error + 'j hyper"
  dropout :: "'v tensor \<Rightarrow> 'v tensor"

text \<open>
  Modelled from the spec: the class \<open>Vocab\<close> of \<open>mindspore.dataset.text\<close> is not among
  the sources. By the spec's data model a vocabulary is an ordered mapping from tokens to
  the ids \<open>0, 1, ...\<close>; it is the list of its tokens in id order, the token of id \<open>i\<close>
  being \<open>vocab ! i\<close>.
\<close>

type_synonym vocab = "string list"

text \<open>
  Modelled from the spec: \<open>Vocab.from_list(word_list, special_tokens, special_first)\<close>
  follows the spec's vocabulary builder: the special tokens take the first ids when
  \<open>special_first\<close> is true and the last ids otherwise, and the file tokens keep their
  order. What the builder does with a token that occurs twice is not described and not
  modelled.
\<close>

definition from_list :: "string list \<Rightarrow> string list \<Rightarrow> bool \<Rightarrow> vocab" where
  "from_list word_list special_tokens special_first =
     (if special_first then special_tokens @ word_list else word_list @ special_tokens)"

text \<open>
  Modelled from the spec: \<open>list(self.get_word_vocab().keys())\<close>, with \<open>get_word_vocab\<close>
  of the base class \<open>TokenEmbedding\<close> that is not among the sources: the tokens of the
  vocabulary in id order.
\<close>

definition vocab_keys :: "vocab \<Rightarrow> string list" where
  "vocab_keys v = v"

text \<open>
  The instance: the attributes \<open>__init__\<close> sets. \<open>dropout_layer\<close> is the argument
  \<open>1 - dropout\<close> that \<open>nn.Dropout\<close> is built with. The dropout probability is a rational
  number; the literal \<open>0.5\<close> is \<open>1 / 2\<close>.
\<close>

record ('v, 'j) fasttext =
  word_vocab :: vocab
  vocab_size :: nat
  embed :: "'v list list"
  embed_dim :: nat
  embed_size :: "nat list"
  requires_grad :: bool
  dropout_layer :: rat
  train_state :: bool
  dropout_p :: rat
  kwargs :: "(string \<times> 'j) list"

text \<open>
  \<open>np.array(embeddings).astype(np.float32)\<close> of a list of one-dimensional arrays: no
  row gives the empty one-dimensional array, rows of one length give the matrix, rows of
  different lengths are refused.
\<close>

definition np_array :: "'v list list \<Rightarrow> error + 'v ndarray" where
  "np_array rs =
     (if rs = [] then Inr \<lparr>nd_shape = [0], nd_rows = []\<rparr>
      else if list_all (\<lambda>r. length r = length (hd rs)) rs
      then Inr \<lparr>nd_shape = [length rs, length (hd rs)], nd_rows = rs\<rparr>
      else Inl InhomogeneousShape)"

text \<open>
  \<open>Fasttext.__init__(vocab, init_embed, requires_grad, dropout, train_state, **kwargs)\<close>;
  \<open>init_embed.shape[0]\<close> and \<open>init_embed.shape[1]\<close> raise on a shape that lacks them.
\<close>

definition init ::
  "vocab \<Rightarrow> 'v ndarray \<Rightarrow> bool \<Rightarrow> rat \<Rightarrow> bool \<Rightarrow> (string \<times> 'j) list
     \<Rightarrow> error + ('v, 'j) fasttext" where
  "init vocab init_embed requires_grad' dropout' train_state' kwargs' =
     (case nd_shape init_embed of
        n # d # _ \<Rightarrow>
          Inr \<lparr>word_vocab = vocab, vocab_size = n, embed = nd_rows init_embed,
               embed_dim = d, embed_size = nd_shape init_embed,
               requires_grad = requires_grad', dropout_layer = 1 - dropout',
               train_state = train_state', dropout_p = dropout', kwargs = kwargs'\<rparr>
      | _ \<Rightarrow> Inl IndexError)"

section \<open>The operations\<close>

subsection \<open>Module and class constants\<close>

definition JSON_FILENAME :: string where
  "JSON_FILENAME = ''fasttext_hyper.json''"

definition EMBED_FILENAME :: string where
  "EMBED_FILENAME = ''fasttext.txt''"

definition urls :: "(string \<times> string) list" where
  "urls =
     [(''1M'', ''https://dl.fbaipublicfiles.com/fasttext/vectors-english/wiki-news-300d-1M.vec.zip''),
      (''1M-subword'',
       ''https://dl.fbaipublicfiles.com/fasttext/vectors-english/wiki-news-300d-1M-subword.vec.zip'')]"

definition cls_dims :: "int list" where
  "cls_dims = [300]"

subsection \<open>The vector-file reader\<close>

text \<open>
  The loop that \<open>from_pretrained\<close> (lines 113 to 116) and \<open>load\<close> (lines 208 to 211)
  both run over the lines after the first: split the line once, fail when that does not
  give two pieces, append the word to \<open>tokens\<close> and the parsed vector to \<open>embeddings\<close>.
\<close>

definition unpack_error :: "nat \<Rightarrow> error" where
  "unpack_error n =
     ValueError (''not enough values to unpack (expected 2, got '' @ str_nat n @ '')'')"

fun read_vectors ::
  "('v, 'j) runtime \<Rightarrow> string list \<Rightarrow> 'v list list \<Rightarrow> string list
     \<Rightarrow> error + (string list \<times> 'v list list)" where
  "read_vectors rt tokens embeddings [] = Inr (tokens, embeddings)"
| "read_vectors rt tokens embeddings (line # ls) =
     (case split_maxsplit1 line of
        [word, embedding] \<Rightarrow>
          (case np_fromstring rt embedding of
             Inl e \<Rightarrow> Inl e
           | Inr v \<Rightarrow> read_vectors rt (tokens @ [word]) (embeddings @ [v]) ls)
      | pieces \<Rightarrow> Inl (unpack_error (length pieces)))"

subsection \<open>\<open>from_pretrained\<close>\<close>

text \<open>
  Lines 94 to 97: the two checks of the arguments. \<open>name not in cls.urls\<close> tests the
  keys of the dictionary; the messages are the f-strings of the source.
\<close>

definition repr_list :: "string list \<Rightarrow> string" where
  "repr_list xs = ''['' @ join '', '' xs @ '']''"

definition check_args :: "string \<Rightarrow> int \<Rightarrow> error + unit" where
  "check_args name dims =
     (if name \<notin> set (map fst urls) then
        Inl (ValueError (''The argument 'name' must in dict_keys(''
               @ repr_list (map (\<lambda>(k, u). repr_str k) urls) @ ''), but got '' @ name @ ''.''))
      else if dims \<notin> set cls_dims then
        Inl (ValueError (''The argument 'dims' must in ''
               @ repr_list (map str_int cls_dims) @ '', but got '' @ str_int dims @ ''.''))
      else Inr ())"

text \<open>
  \<open>re.sub(r".+/", "", url)\<close> on a text without newline: the greedy match starts at the
  first character and ends at the last slash, when a slash stands after the first
  character; otherwise nothing matches.
\<close>

definition re_sub_dirs :: "string \<Rightarrow> string" where
  "re_sub_dirs url =
     (if CHR ''/'' \<in> set (drop 1 url) then rev (takeWhile (\<lambda>c. c \<noteq> CHR ''/'') (rev url))
      else url)"

text \<open>\<open>xs.insert(i, x)\<close> for \<open>i \<ge> 0\<close>.\<close>

definition list_insert :: "nat \<Rightarrow> 'a \<Rightarrow> 'a list \<Rightarrow> 'a list" where
  "list_insert i x xs = take i xs @ [x] @ drop i xs"

text \<open>\<open>np.random.rand(dims)\<close> and \<open>np.zeros((dims,), np.float32)\<close>.\<close>

definition np_random_rand :: "('v, 'j) runtime \<Rightarrow> nat \<Rightarrow> 'v list" where
  "np_random_rand rt n = map (np_random rt) [0..<n]"

definition np_zeros :: "('v, 'j) runtime \<Rightarrow> nat \<Rightarrow> 'v list" where
  "np_zeros rt n = replicate n (np_zero rt)"

text \<open>
  Lines 118 to 127: the two synthetic rows, the vocabulary and the instance, from the
  tokens and vectors read.
\<close>

definition assemble ::
  "('v, 'j) runtime \<Rightarrow> int \<Rightarrow> string \<times> string \<Rightarrow> bool \<Rightarrow> string list \<Rightarrow> 'v list list
     \<Rightarrow> error + (('v, 'j) fasttext \<times> vocab)" where
  "assemble rt dims special_tokens special_first tokens embeddings =
     (let embeddings' =
            (if special_first then
               list_insert 1 (np_zeros rt (nat dims))
                 (list_insert 0 (np_random_rand rt (nat dims)) embeddings)
             else (embeddings @ [np_random_rand rt (nat dims)]) @ [np_zeros rt (nat dims)]);
          vocab = from_list tokens [fst special_tokens, snd special_tokens] special_first
      in case np_array embeddings' of
           Inl e \<Rightarrow> Inl e
         | Inr arr \<Rightarrow>
             (case init vocab arr True (1 / 2) True [] of
                Inl e \<Rightarrow> Inl e
              | Inr self \<Rightarrow> Inr (self, vocab)))"

text \<open>
  \<open>Fasttext.from_pretrained(name, dims, root, special_tokens, special_first)\<close> in the
  file system \<open>w\<close>; the result comes with the file system the call leaves.
\<close>

definition from_pretrained ::
  "('v, 'j) runtime \<Rightarrow> string \<Rightarrow> int \<Rightarrow> string \<Rightarrow> string \<times> string \<Rightarrow> bool \<Rightarrow> fs
     \<Rightarrow> (error + (('v, 'j) fasttext \<times> vocab)) \<times> fs" where
  "from_pretrained rt name dims root' special_tokens special_first w =
     (case check_args name dims of
        Inl e \<Rightarrow> (Inl e, w)
      | Inr _ \<Rightarrow>
          (let cache_dir = os_path_join root' [''embeddings'', ''Fasttext'']
           in case map_of urls name of
                None \<Rightarrow> (Inl (KeyError name), w)
              | Some url \<Rightarrow>
                  (let download_file_name = re_sub_dirs url;
                       fasttext_file_name =
                         ''wiki-news-'' @ str_int dims @ ''d-'' @ name @ ''.vec''
                   in case cache_file rt download_file_name cache_dir url w of
                        (Inl e, w1) \<Rightarrow> (Inl e, w1)
                      | (Inr path, w1) \<Rightarrow>
                          (let decompress_path = os_path_join cache_dir [fasttext_file_name]
                           in case (if \<not> os_path_exists w1 decompress_path
                                    then unzip rt path cache_dir w1 else (Inr (), w1)) of
                                (Inl e, w2) \<Rightarrow> (Inl e, w2)
                              | (Inr _, w2) \<Rightarrow>
                                  (let fasttext_file_path =
                                         os_path_join cache_dir [fasttext_file_name]
                                   in case open_r w2 fasttext_file_path of
                                        Inl e \<Rightarrow> (Inl e, w2)
                                      | Inr text \<Rightarrow>
                                          (case read_vectors rt [] []
                                                  (islice1 (file_lines text)) of
                                             Inl e \<Rightarrow> (Inl e, w2)
                                           | Inr (tokens, embeddings) \<Rightarrow>
                                               (assemble rt dims special_tokens
                                                  special_first tokens embeddings, w2)))))))"

subsection \<open>\<open>construct\<close>\<close>

text \<open>
  Modelled from the spec: \<open>ops.gather(params, indices, 0)\<close> belongs to the tensor
  runtime, which is not among the sources. By the spec's lookup contract gathering
  replaces each id by the table row of that id, and an id outside \<open>[0, rows)\<close> is an
  index error that is raised, not clamped or wrapped.
\<close>

definition gather :: "'v list list \<Rightarrow> int list \<Rightarrow> error + 'v list list" where
  "gather params indices =
     (if list_all (\<lambda>i. 0 \<le> i \<and> i < int (length params)) indices
      then Inr (map (\<lambda>i. params ! nat i) indices)
      else Inl IndexError)"

text \<open>
  Modelled from the spec: \<open>ops.reshape\<close> of the same runtime keeps the elements in
  row-major order and needs a shape with as many elements as the array has.
\<close>

definition reshape :: "'a list \<Rightarrow> nat list \<Rightarrow> error + 'a tensor" where
  "reshape xs shp =
     (if prod_list shp = length xs then Inr \<lparr>shape = shp, flat = xs\<rparr> else Inl ReshapeError)"

text \<open>\<open>Fasttext.construct(ids)\<close>: \<open>ids\<close> is the array \<open>Tensor(ids)\<close>.\<close>

definition construct ::
  "('v, 'j) runtime \<Rightarrow> ('v, 'j) fasttext \<Rightarrow> int tensor \<Rightarrow> error + 'v tensor" where
  "construct rt self ids =
     (let out_shape = shape ids @ [embed_dim self];
          flat_ids = flat ids
      in case gather (embed self) flat_ids of
           Inl e \<Rightarrow> Inl e
         | Inr output_for_reshape \<Rightarrow>
             (case reshape (concat output_for_reshape) out_shape of
                Inl e \<Rightarrow> Inl e
              | Inr output \<Rightarrow> Inr (dropout rt output)))"

subsection \<open>\<open>save\<close>\<close>

text \<open>
  The loop of lines 175 to 179 over \<open>range(0, nums)\<close>: \<open>vocab_list[i]\<close> and
  \<open>embed_list[i]\<close> raise past the end; each step writes one line.
\<close>

fun write_rows ::
  "('v, 'j) runtime \<Rightarrow> string list \<Rightarrow> 'v list list \<Rightarrow> nat list \<Rightarrow> pyfile
     \<Rightarrow> (error + unit) \<times> pyfile" where
  "write_rows rt vocab_list embed_list [] file = (Inr (), file)"
| "write_rows rt vocab_list embed_list (i # is) file =
     (if \<not> i < length vocab_list then (Inl IndexError, file)
      else if \<not> i < length embed_list then (Inl IndexError, file)
      else
        (let vocab_write = vocab_list ! i;
             embed_write = embed_list ! i;
             vec_write = join '' '' (map (tensor_str rt) embed_write)
         in write_rows rt vocab_list embed_list is
              (f_write (vocab_write @ '' '' @ vec_write @ [CHR 0x0A]) file)))"

text \<open>
  \<open>self.save(foldername, root)\<close>: the JSON file, then the vector file with its
  placeholder line, its rows and the header written over the placeholder. A file opened
  for writing exists from then on, with what was written before an exception.
\<close>

definition save ::
  "('v, 'j) runtime \<Rightarrow> ('v, 'j) fasttext \<Rightarrow> string \<Rightarrow> string \<Rightarrow> fs \<Rightarrow> (error + unit) \<times> fs" where
  "save rt self foldername root' w =
     (let folder = os_path_join root' [''embeddings'', ''Fasttext'', ''save'', foldername];
          vocab_list = vocab_keys (word_vocab self);
          embed_list = embed self;
          nums = vocab_size self;
          dims = embed_dim self;
          kwargs' = \<lparr>h_dropout = dropout_p self, h_requires_grad = requires_grad self,
                     h_train_state = train_state self, h_kwargs = kwargs self\<rparr>;
          w1 = w(os_path_join folder [JSON_FILENAME] \<mapsto> json_dump rt kwargs');
          file = f_write (replicate 30 CHR '' '' @ [CHR 0x0A]) open_w
      in case write_rows rt vocab_list embed_list [0..<nums] file of
           (Inl e, file') \<Rightarrow> (Inl e, w1(os_path_join folder [EMBED_FILENAME] \<mapsto> buf file'))
         | (Inr _, file') \<Rightarrow>
             (Inr (),
              w1(os_path_join folder [EMBED_FILENAME] \<mapsto>
                   buf (f_write (str_nat nums @ '' '' @ str_nat dims) (f_seek 0 file')))))"

subsection \<open>\<open>load\<close>\<close>

text \<open>Lines 199 and 200: one assertion per file name, in order.\<close>

fun assert_exists :: "fs \<Rightarrow> string \<Rightarrow> string list \<Rightarrow> error + unit" where
  "assert_exists w folder [] = Inr ()"
| "assert_exists w folder (name # names) =
     (if os_path_exists w (os_path_join folder [name]) then assert_exists w folder names
      else Inl (AssertionError (name @ '' not found in '' @ folder @ ''.'')))"

text \<open>
  \<open>Fasttext.load(foldername, root)\<close>; \<open>Vocab.from_list(tokens)\<close> has no special tokens.
\<close>

definition load ::
  "('v, 'j) runtime \<Rightarrow> string \<Rightarrow> string \<Rightarrow> fs \<Rightarrow> error + ('v, 'j) fasttext" where
  "load rt foldername root' w =
     (let folder = os_path_join root' [''embeddings'', ''Fasttext'', ''save'', foldername]
      in case assert_exists w folder [JSON_FILENAME, EMBED_FILENAME] of
           Inl e \<Rightarrow> Inl e
         | Inr _ \<Rightarrow>
             (case open_r w (os_path_join folder [JSON_FILENAME]) of
                Inl e \<Rightarrow> Inl e
              | Inr json_text \<Rightarrow>
                  (case json_load rt json_text of
                     Inl e \<Rightarrow> Inl e
                   | Inr hyper \<Rightarrow>
                       (case open_r w (os_path_join folder [EMBED_FILENAME]) of
                          Inl e \<Rightarrow> Inl e
                        | Inr text \<Rightarrow>
                            (case read_vectors rt [] [] (islice1 (file_lines text)) of
                               Inl e \<Rightarrow> Inl e
                             | Inr (tokens, embeddings) \<Rightarrow>
                                 (let vocab = from_list tokens [] True
                                  in case np_array embeddings of
                                       Inl e \<Rightarrow> Inl e
                                     | Inr arr \<Rightarrow>
                                         init vocab arr (h_requires_grad hyper)
                                           (h_dropout hyper) (h_train_state hyper)
                                           (h_kwargs hyper)))))))"

section \<open>Notions used to state the properties\<close>

text \<open>The folder of \<open>save\<close> and \<open>load\<close>, and the path of the pretrained vector file.\<close>

definition save_folder :: "string \<Rightarrow> string \<Rightarrow> string" where
  "save_folder root' foldername =
     os_path_join root' [''embeddings'', ''Fasttext'', ''save'', foldername]"

definition pretrained_path :: "string \<Rightarrow> string \<Rightarrow> int \<Rightarrow> string" where
  "pretrained_path root' name dims =
     os_path_join (os_path_join root' [''embeddings'', ''Fasttext''])
       [''wiki-news-'' @ str_int dims @ ''d-'' @ name @ ''.vec'']"

text \<open>
  The invariant of the data model: as many tokens as rows, \<open>vocab_size\<close> rows, each of
  \<open>embed_dim\<close> elements.
\<close>

definition wf_instance :: "('v, 'j) fasttext \<Rightarrow> bool" where
  "wf_instance self =
     (length (word_vocab self) = vocab_size self \<and> length (embed self) = vocab_size self
      \<and> list_all (\<lambda>r. length r = embed_dim self) (embed self))"




text \<open>
  A token, or the text of a scalar, that \<open>split\<close> leaves whole: not empty and free of
  whitespace.
\<close>

definition clean_word :: "string \<Rightarrow> bool" where
  "clean_word s = (s \<noteq> [] \<and> list_all (\<lambda>c. \<not> isspace c) s)"

text \<open>
  The rows of the table that \<open>from_pretrained\<close> builds: the row of random values and the
  row of zeros, in this order, before or after the rows of the file.
\<close>

definition special_rows ::
  "('v, 'j) runtime \<Rightarrow> int \<Rightarrow> bool \<Rightarrow> 'v list list \<Rightarrow> 'v list list" where
  "special_rows rt dims special_first embeddings =
     (if special_first
      then np_random_rand rt (nat dims) # np_zeros rt (nat dims) # embeddings
      else embeddings @ [np_random_rand rt (nat dims), np_zeros rt (nat dims)])"

section \<open>A runtime for examples\<close>

text \<open>
  A concrete runtime on which the model runs: a scalar is its decimal text, the parser
  splits at whitespace and accepts fields of digits and dots, the cache and the
  extraction find everything in place, every random draw is \<open>0.5\<close>, and dropout is the
  identity.
\<close>

fun words_from :: "string \<Rightarrow> string \<Rightarrow> string list" where
  "words_from acc [] = (if acc = [] then [] else [acc])"
| "words_from acc (c # cs) =
     (if isspace c then (if acc = [] then words_from [] cs else acc # words_from [] cs)
      else words_from (acc @ [c]) cs)"

definition numeric_field :: "string \<Rightarrow> bool" where
  "numeric_field s = (s \<noteq> [] \<and> list_all (\<lambda>c. c \<in> set ''0123456789.'') s)"

definition demo_fromstring :: "string \<Rightarrow> error + string list" where
  "demo_fromstring s =
     (let fields = words_from [] s
      in if list_all numeric_field fields then Inr fields
         else Inl (ExternalError ''fromstring''))"

definition demo_runtime :: "(string, unit) runtime" where
  "demo_runtime =
     \<lparr>cache_file = (\<lambda>filename cache_dir url w. (Inr (os_path_join cache_dir [filename]), w)),
      unzip = (\<lambda>path cache_dir w. (Inr (), w)),
      np_fromstring = demo_fromstring,
      np_random = (\<lambda>i. ''0.5''),
      np_zero = ''0.0'',
      tensor_str = (\<lambda>v. v),
      json_dump = (\<lambda>h. ''{}''),
      json_load = (\<lambda>s. Inr \<lparr>h_dropout = 1 / 2, h_requires_grad = True,
                               h_train_state = True, h_kwargs = []\<rparr>),
      dropout = (\<lambda>t. t)\<rparr>"

text \<open>A pretrained file with the header and the one token \<open>cat\<close>.\<close>

definition example_vec_text :: string where
  "example_vec_text =
     ''1 300'' @ [CHR 0x0A] @ ''cat '' @ join '' '' (replicate 300 ''1'') @ [CHR 0x0A]"

definition example_fs :: fs where
  "example_fs = Map.empty(''r/embeddings/Fasttext/wiki-news-300d-1M.vec'' \<mapsto> example_vec_text)"

text \<open>An instance with two tokens and rows of two elements.\<close>

definition example_instance :: "(string, unit) fasttext" where
  "example_instance =
     \<lparr>word_vocab = [''cat'', ''dog''], vocab_size = 2,
      embed = [[''0.1'', ''0.2''], [''0.3'', ''0.4'']], embed_dim = 2, embed_size = [2, 2],
      requires_grad = True, dropout_layer = 1 / 2, train_state = True, dropout_p = 1 / 2,
      kwargs = []\<rparr>"


text \<open>
  A saved folder whose vector file declares three elements per row in its header and
  has two on each line.
\<close>

definition short_rows_fs :: fs where
  "short_rows_fs =
     Map.empty
       (''r/embeddings/Fasttext/save/f/fasttext_hyper.json'' \<mapsto> ''{}'',
        ''r/embeddings/Fasttext/save/f/fasttext.txt'' \<mapsto>
          ''2 3'' @ [CHR 0x0A] @ ''a 1 2'' @ [CHR 0x0A] @ ''b 3 4'' @ [CHR 0x0A])"

section \<open>Properties\<close>

declare os_path_join.simps [simp del]

subsection \<open>Lines and words\<close>

lemma isspace_newline [simp]: "isspace (CHR 0x0A)" "isspace (CHR 0x0D)" "isspace (CHR '' '')"
  by (simp_all add: isspace_def)

lemma file_lines_from_line:
  "list_all (\<lambda>c. c \<noteq> CHR 0x0A \<and> c \<noteq> CHR 0x0D) l \<Longrightarrow>
     file_lines_from False acc (l @ CHR 0x0A # rest)
       = (acc @ l @ [CHR 0x0A]) # file_lines_from False [] rest"
  by (induction l arbitrary: acc) auto

lemma file_lines_from_lines:
  "list_all (list_all (\<lambda>c. c \<noteq> CHR 0x0A \<and> c \<noteq> CHR 0x0D)) ls \<Longrightarrow>
     file_lines_from False [] (concat (map (\<lambda>l. l @ [CHR 0x0A]) ls)) = map (\<lambda>l. l @ [CHR 0x0A]) ls"
proof (induction ls)
  case Nil
  show ?case by simp
next
  case (Cons l ls)
  then have "file_lines_from False [] (l @ CHR 0x0A # concat (map (\<lambda>l. l @ [CHR 0x0A]) ls))
               = ([] @ l @ [CHR 0x0A]) # map (\<lambda>l. l @ [CHR 0x0A]) ls"
    by (simp add: file_lines_from_line del: file_lines_from.simps)
  then show ?case by simp
qed

lemma clean_word_no_newline:
  "clean_word s \<Longrightarrow> list_all (\<lambda>c. c \<noteq> CHR 0x0A \<and> c \<noteq> CHR 0x0D) s"
  by (auto simp: clean_word_def list_all_iff)

lemma split_maxsplit1_two:
  assumes "clean_word tok" and "rest \<noteq> []" and "\<not> isspace (hd rest)"
  shows "split_maxsplit1 (tok @ CHR '' '' # rest) = [tok, rest]"
proof -
  from assms(1) obtain c cs where tok: "tok = c # cs" and c: "\<not> isspace c"
    by (cases tok) (auto simp: clean_word_def)
  from assms(1) have all: "\<forall>x\<in>set tok. \<not> isspace x"
    by (simp add: clean_word_def list_all_iff)
  have d1: "dropWhile isspace (tok @ CHR '' '' # rest) = tok @ CHR '' '' # rest"
    using tok c by simp
  have t: "takeWhile (\<lambda>c. \<not> isspace c) (tok @ CHR '' '' # rest) = tok"
    using all by (simp add: takeWhile_tail)
  have d2: "dropWhile (\<lambda>c. \<not> isspace c) (tok @ CHR '' '' # rest) = CHR '' '' # rest"
    using all by (simp add: dropWhile_append2)
  have d3: "dropWhile isspace (CHR '' '' # rest) = rest"
    using assms(2,3) by (cases rest) auto
  show ?thesis
    unfolding split_maxsplit1_def Let_def d1 t d2 d3 using assms(2) tok by simp
qed

lemma join_clean_hd:
  "row \<noteq> [] \<Longrightarrow> list_all clean_word row \<Longrightarrow>
     join '' '' row @ rest \<noteq> [] \<and> \<not> isspace (hd (join '' '' row @ rest))"
  by (induction "'' ''" row rule: join.induct) (auto simp: clean_word_def neq_Nil_conv)

lemma join_clean_no_newline:
  "list_all clean_word row \<Longrightarrow>
     list_all (\<lambda>c. c \<noteq> CHR 0x0A \<and> c \<noteq> CHR 0x0D) (join '' '' row)"
  by (induction "'' ''" row rule: join.induct) (auto dest: clean_word_no_newline)

subsection \<open>The example runtime\<close>

lemma words_from_word:
  "list_all (\<lambda>c. \<not> isspace c) f \<Longrightarrow> words_from acc (f @ rest) = words_from (acc @ f) rest"
  by (induction f arbitrary: acc) auto

lemma words_from_join:
  "list_all clean_word row \<Longrightarrow> words_from [] (join '' '' row @ [CHR 0x0A]) = row"
proof (induction "'' ''" row rule: join.induct)
  case 1
  show ?case by simp
next
  case (2 x)
  then have "words_from [] (x @ [CHR 0x0A]) = words_from ([] @ x) [CHR 0x0A]"
    by (intro words_from_word) (simp add: clean_word_def)
  with 2 show ?case by (simp add: clean_word_def)
next
  case (3 x y ys)
  then have "words_from [] (x @ (CHR '' '' # join '' '' (y # ys) @ [CHR 0x0A]))
               = words_from ([] @ x) (CHR '' '' # join '' '' (y # ys) @ [CHR 0x0A])"
    by (intro words_from_word) (simp add: clean_word_def)
  with 3 show ?case by (simp add: clean_word_def)
qed

lemma digit_not_space: "c \<in> set ''0123456789.'' \<Longrightarrow> \<not> isspace c"
  by (auto simp: isspace_def)

lemma numeric_field_clean: "numeric_field f \<Longrightarrow> clean_word f"
  unfolding numeric_field_def clean_word_def list_all_iff
  using digit_not_space by blast

lemma demo_fromstring_join:
  "list_all numeric_field row \<Longrightarrow> demo_fromstring (join '' '' row @ [CHR 0x0A]) = Inr row"
proof -
  assume a: "list_all numeric_field row"
  then have "list_all clean_word row"
    by (auto simp: list_all_iff dest: numeric_field_clean)
  then have "words_from [] (join '' '' row @ [CHR 0x0A]) = row"
    by (rule words_from_join)
  with a show ?thesis by (simp add: demo_fromstring_def)
qed

subsection \<open>The reader\<close>



lemma read_vectors_Inr:
  "read_vectors rt tokens embeddings ls = Inr (tokens', embeddings') \<Longrightarrow>
     list_all (\<lambda>l. length (split_maxsplit1 l) = 2) ls \<and>
     tokens' = tokens @ map (\<lambda>l. split_maxsplit1 l ! 0) ls \<and>
     (\<exists>rows. embeddings' = embeddings @ rows \<and>
        map (\<lambda>l. np_fromstring rt (split_maxsplit1 l ! 1)) ls = map Inr rows)"
proof (induction ls arbitrary: tokens embeddings)
  case Nil
  then show ?case by simp
next
  case (Cons l ls)
  from Cons.prems obtain word embedding v where
      s: "split_maxsplit1 l = [word, embedding]" and p: "np_fromstring rt embedding = Inr v"
      and r: "read_vectors rt (tokens @ [word]) (embeddings @ [v]) ls = Inr (tokens', embeddings')"
    by (auto split: list.splits sum.splits)
  from Cons.IH [OF r] obtain rows where
      "list_all (\<lambda>l. length (split_maxsplit1 l) = 2) ls"
      "tokens' = (tokens @ [word]) @ map (\<lambda>l. split_maxsplit1 l ! 0) ls"
      "embeddings' = (embeddings @ [v]) @ rows"
      "map (\<lambda>l. np_fromstring rt (split_maxsplit1 l ! 1)) ls = map Inr rows"
    by blast
  with s p show ?case
    by (auto intro: exI [of _ "v # rows"])
qed

lemma read_vectors_length:
  "read_vectors rt [] [] ls = Inr (tokens, embeddings) \<Longrightarrow>
     length tokens = length ls \<and> length embeddings = length ls"
  by (drule read_vectors_Inr) (auto dest: arg_cong [where f = length])

subsection \<open>Construction\<close>

lemma np_array_Inr:
  "np_array rs = Inr arr \<Longrightarrow> nd_rows arr = rs \<and>
     (rs = [] \<longrightarrow> nd_shape arr = [0]) \<and>
     (rs \<noteq> [] \<longrightarrow> nd_shape arr = [length rs, length (hd rs)] \<and>
        list_all (\<lambda>r. length r = length (hd rs)) rs)"
  by (auto simp: np_array_def split: if_splits)

lemma np_array_ok:
  "rs \<noteq> [] \<Longrightarrow> list_all (\<lambda>r. length r = d) rs \<Longrightarrow>
     np_array rs = Inr \<lparr>nd_shape = [length rs, d], nd_rows = rs\<rparr>"
  by (cases rs) (auto simp: np_array_def list_all_iff)

lemma init_Inr:
  "init vocab arr rg dp ts kw = Inr self \<Longrightarrow>
     (\<exists>n d rest. nd_shape arr = n # d # rest \<and>
        self = \<lparr>word_vocab = vocab, vocab_size = n, embed = nd_rows arr, embed_dim = d,
                embed_size = nd_shape arr, requires_grad = rg, dropout_layer = 1 - dp,
                train_state = ts, dropout_p = dp, kwargs = kw\<rparr>)"
  by (auto simp: init_def split: list.splits)

lemma special_rows_length [simp]:
  "length (np_random_rand rt n) = n" "length (np_zeros rt n) = n"
  by (simp_all add: np_random_rand_def np_zeros_def)

lemma assemble_Inr:
  assumes "assemble rt dims special_tokens special_first tokens embeddings = Inr (self, vocab)"
  shows "vocab = from_list tokens [fst special_tokens, snd special_tokens] special_first \<and>
     list_all (\<lambda>r. length r = nat dims) embeddings \<and>
     self = \<lparr>word_vocab = vocab, vocab_size = length embeddings + 2,
             embed = special_rows rt dims special_first embeddings,
             embed_dim = nat dims, embed_size = [length embeddings + 2, nat dims],
             requires_grad = True, dropout_layer = 1 / 2, train_state = True,
             dropout_p = 1 / 2, kwargs = []\<rparr>"
proof (cases special_first)
  case True
  with assms show ?thesis
    by (auto simp: assemble_def special_rows_def list_insert_def Let_def
        split: sum.splits dest!: np_array_Inr init_Inr)
next
  case False
  with assms obtain arr where
    a: "np_array (embeddings @ [np_random_rand rt (nat dims), np_zeros rt (nat dims)]) = Inr arr"
    and i: "init (from_list tokens [fst special_tokens, snd special_tokens] False) arr
              True (1 / 2) True [] = Inr self"
    and v: "vocab = from_list tokens [fst special_tokens, snd special_tokens] False"
    by (auto simp: assemble_def Let_def split: sum.splits)
  from np_array_Inr [OF a] have
    rows: "nd_rows arr = embeddings @ [np_random_rand rt (nat dims), np_zeros rt (nat dims)]"
    and shp: "nd_shape arr = [length embeddings + 2,
                length (hd (embeddings @ [np_random_rand rt (nat dims), np_zeros rt (nat dims)]))]"
    and all: "list_all (\<lambda>r. length r
                = length (hd (embeddings @ [np_random_rand rt (nat dims), np_zeros rt (nat dims)])))
               (embeddings @ [np_random_rand rt (nat dims), np_zeros rt (nat dims)])"
    by auto
  from all have d: "length (hd (embeddings @ [np_random_rand rt (nat dims), np_zeros rt (nat dims)]))
                      = nat dims"
    by simp
  from all d have "list_all (\<lambda>r. length r = nat dims) embeddings" by simp
  with init_Inr [OF i] rows shp d v False show ?thesis
    by (auto simp: special_rows_def)
qed

lemma assemble_ok:
  assumes "list_all (\<lambda>r. length r = nat dims) embeddings"
  shows "assemble rt dims special_tokens special_first tokens embeddings =
     Inr (\<lparr>word_vocab = from_list tokens [fst special_tokens, snd special_tokens] special_first,
           vocab_size = length embeddings + 2,
           embed = special_rows rt dims special_first embeddings,
           embed_dim = nat dims, embed_size = [length embeddings + 2, nat dims],
           requires_grad = True, dropout_layer = 1 / 2, train_state = True,
           dropout_p = 1 / 2, kwargs = []\<rparr>,
          from_list tokens [fst special_tokens, snd special_tokens] special_first)"
proof -
  have "list_all (\<lambda>r. length r = nat dims) (special_rows rt dims special_first embeddings)"
    using assms by (simp add: special_rows_def)
  moreover have "special_rows rt dims special_first embeddings \<noteq> []"
    by (simp add: special_rows_def)
  ultimately have "np_array (special_rows rt dims special_first embeddings)
      = Inr \<lparr>nd_shape = [length (special_rows rt dims special_first embeddings), nat dims],
             nd_rows = special_rows rt dims special_first embeddings\<rparr>"
    by (intro np_array_ok)
  moreover have "length (special_rows rt dims special_first embeddings) = length embeddings + 2"
    by (simp add: special_rows_def)
  ultimately show ?thesis
    by (cases special_first)
      (simp_all add: assemble_def special_rows_def list_insert_def Let_def init_def)
qed

lemma from_pretrained_Inr:
  assumes "from_pretrained rt name dims root' special_tokens special_first w = (Inr res, w')"
  shows "check_args name dims = Inr () \<and>
    (\<exists>text tokens embeddings.
        w' (pretrained_path root' name dims) = Some text \<and>
        read_vectors rt [] [] (islice1 (file_lines text)) = Inr (tokens, embeddings) \<and>
        assemble rt dims special_tokens special_first tokens embeddings = Inr res)"
  using assms
  by (auto simp: from_pretrained_def pretrained_path_def Let_def open_r_def
      split: sum.splits prod.splits option.splits if_splits)

subsection \<open>The example file\<close>

lemma str_int_300: "str_int 300 = ''300''"
  by (simp add: str_int_def str_nat.simps)

lemma example_path: "pretrained_path ''r'' ''1M'' 300 = ''r/embeddings/Fasttext/wiki-news-300d-1M.vec''"
  by (simp add: pretrained_path_def str_int_300 os_path_join.simps)

lemma example_lines:
  "islice1 (file_lines example_vec_text) = [''cat '' @ join '' '' (replicate 300 ''1'') @ [CHR 0x0A]]"
proof -
  have c: "list_all clean_word (replicate 300 ''1'')"
    by (simp add: list_all_iff clean_word_def isspace_def)
  have e: "example_vec_text
          = concat (map (\<lambda>l. l @ [CHR 0x0A]) [''1 300'', ''cat '' @ join '' '' (replicate 300 ''1'')])"
    by (simp add: example_vec_text_def)
  have "list_all (list_all (\<lambda>c. c \<noteq> CHR 0x0A \<and> c \<noteq> CHR 0x0D))
                   [''1 300'', ''cat '' @ join '' '' (replicate 300 ''1'')]"
    using join_clean_no_newline [OF c] by simp
  then have "file_lines_from False []
               (concat (map (\<lambda>l. l @ [CHR 0x0A]) [''1 300'', ''cat '' @ join '' '' (replicate 300 ''1'')]))
             = map (\<lambda>l. l @ [CHR 0x0A]) [''1 300'', ''cat '' @ join '' '' (replicate 300 ''1'')]"
    by (rule file_lines_from_lines)
  then show ?thesis
    unfolding file_lines_def islice1_def e by simp
qed

lemma example_read:
  "read_vectors demo_runtime [] [] (islice1 (file_lines example_vec_text))
     = Inr ([''cat''], [replicate 300 ''1''])"
proof -
  have c: "list_all clean_word (replicate 300 ''1'')"
    by (simp add: list_all_iff clean_word_def isspace_def)
  have n: "list_all numeric_field (replicate 300 ''1'')"
    by (simp add: list_all_iff numeric_field_def)
  have "split_maxsplit1 (''cat'' @ CHR '' '' # (join '' '' (replicate 300 ''1'') @ [CHR 0x0A]))
          = [''cat'', join '' '' (replicate 300 ''1'') @ [CHR 0x0A]]"
    using join_clean_hd [OF _ c, of "[CHR 0x0A]"]
    by (intro split_maxsplit1_two) (simp_all add: clean_word_def isspace_def)
  moreover have "np_fromstring demo_runtime (join '' '' (replicate 300 ''1'') @ [CHR 0x0A])
                   = Inr (replicate 300 ''1'')"
    using demo_fromstring_join [OF n] by (simp add: demo_runtime_def)
  ultimately show ?thesis
    by (simp add: example_lines)
qed

lemma example_from_pretrained:
  "from_pretrained demo_runtime ''1M'' 300 ''r'' special_tokens special_first example_fs
     = (assemble demo_runtime 300 special_tokens special_first [''cat''] [replicate 300 ''1''],
        example_fs)"
proof -
  have c: "check_args ''1M'' 300 = Inr ()"
    by (simp add: check_args_def urls_def cls_dims_def)
  have u: "map_of urls ''1M''
      = Some ''https://dl.fbaipublicfiles.com/fasttext/vectors-english/wiki-news-300d-1M.vec.zip''"
    by (simp add: urls_def)
  have cf: "cache_file demo_runtime a b u w = (Inr (os_path_join b [a]), w)" for a b u w
    by (simp add: demo_runtime_def)
  show ?thesis
    unfolding from_pretrained_def Let_def c u
    by (simp add: cf str_int_300 os_path_join.simps os_path_exists_def open_r_def
        example_fs_def example_read)
qed

subsection \<open>Missing files\<close>

lemma assert_exists_two:
  "assert_exists w folder [a, b] =
     (if w (os_path_join folder [a]) = None then Inl (AssertionError (a @ '' not found in '' @ folder @ ''.''))
      else if w (os_path_join folder [b]) = None then Inl (AssertionError (b @ '' not found in '' @ folder @ ''.''))
      else Inr ())"
  by (simp add: os_path_exists_def os_path_join.simps)

lemma load_assert_fails:
  assumes "assert_exists w (save_folder root' foldername) [JSON_FILENAME, EMBED_FILENAME] = Inl e"
  shows "load rt foldername root' w = Inl e"
  using assms unfolding load_def save_folder_def Let_def by (simp only: sum.case)

text \<open>
  C9: when the JSON file or the vector file is absent from the folder, \<open>load\<close> fails with
  an \<open>AssertionError\<close> whose message names the missing file and the folder, and returns
  no instance; when both files are there, both assertions pass.
\<close>

theorem load_missing_file:
  "(w (os_path_join (save_folder root' foldername) [JSON_FILENAME]) = None \<longrightarrow>
      load rt foldername root' w =
        Inl (AssertionError (JSON_FILENAME @ '' not found in '' @ save_folder root' foldername @ ''.'')))
   \<and> (w (os_path_join (save_folder root' foldername) [JSON_FILENAME]) \<noteq> None \<and>
      w (os_path_join (save_folder root' foldername) [EMBED_FILENAME]) = None \<longrightarrow>
      load rt foldername root' w =
        Inl (AssertionError (EMBED_FILENAME @ '' not found in '' @ save_folder root' foldername @ ''.'')))
   \<and> (w (os_path_join (save_folder root' foldername) [JSON_FILENAME]) \<noteq> None \<and>
      w (os_path_join (save_folder root' foldername) [EMBED_FILENAME]) \<noteq> None \<longrightarrow>
      assert_exists w (save_folder root' foldername) [JSON_FILENAME, EMBED_FILENAME] = Inr ())"
proof (intro conjI impI)
  assume "w (os_path_join (save_folder root' foldername) [JSON_FILENAME]) = None"
  then show "load rt foldername root' w =
        Inl (AssertionError (JSON_FILENAME @ '' not found in '' @ save_folder root' foldername @ ''.''))"
    by (intro load_assert_fails) (auto simp add: assert_exists_two simp del: assert_exists.simps)
next
  assume "w (os_path_join (save_folder root' foldername) [JSON_FILENAME]) \<noteq> None \<and>
      w (os_path_join (save_folder root' foldername) [EMBED_FILENAME]) = None"
  then show "load rt foldername root' w =
        Inl (AssertionError (EMBED_FILENAME @ '' not found in '' @ save_folder root' foldername @ ''.''))"
    by (intro load_assert_fails) (auto simp add: assert_exists_two simp del: assert_exists.simps)
next
  assume "w (os_path_join (save_folder root' foldername) [JSON_FILENAME]) \<noteq> None \<and>
      w (os_path_join (save_folder root' foldername) [EMBED_FILENAME]) \<noteq> None"
  then show "assert_exists w (save_folder root' foldername) [JSON_FILENAME, EMBED_FILENAME] = Inr ()"
    by (auto simp add: assert_exists_two simp del: assert_exists.simps)
qed

theorem load_missing_file_witness:
  "load demo_runtime ''f'' ''r'' Map.empty
     = Inl (AssertionError ''fasttext_hyper.json not found in r/embeddings/Fasttext/save/f.'')
   \<and> load demo_runtime ''f'' ''r''
       (Map.empty(''r/embeddings/Fasttext/save/f/fasttext_hyper.json'' \<mapsto> ''{}''))
     = Inl (AssertionError ''fasttext.txt not found in r/embeddings/Fasttext/save/f.'')
   \<and> assert_exists
       (Map.empty(''r/embeddings/Fasttext/save/f/fasttext_hyper.json'' \<mapsto> ''{}'',
                  ''r/embeddings/Fasttext/save/f/fasttext.txt'' \<mapsto> ''0 0''))
       ''r/embeddings/Fasttext/save/f'' [JSON_FILENAME, EMBED_FILENAME] = Inr ()"
  using load_missing_file [of Map.empty "''r''" "''f''" demo_runtime]
    load_missing_file
      [of "Map.empty(''r/embeddings/Fasttext/save/f/fasttext_hyper.json'' \<mapsto> ''{}'')"
          "''r''" "''f''" demo_runtime]
    load_missing_file
      [of "Map.empty(''r/embeddings/Fasttext/save/f/fasttext_hyper.json'' \<mapsto> ''{}'',
                     ''r/embeddings/Fasttext/save/f/fasttext.txt'' \<mapsto> ''0 0'')"
          "''r''" "''f''"]
  by (simp add: save_folder_def os_path_join.simps JSON_FILENAME_def EMBED_FILENAME_def
      del: assert_exists.simps)

subsection \<open>Results of \<open>from_pretrained\<close>\<close>

lemma example_run:
  "from_pretrained demo_runtime ''1M'' 300 ''r'' (s1, s2) special_first example_fs
     = (Inr (\<lparr>word_vocab = from_list [''cat''] [s1, s2] special_first,
               vocab_size = 3,
               embed = special_rows demo_runtime 300 special_first [replicate 300 ''1''],
               embed_dim = 300, embed_size = [3, 300],
               requires_grad = True, dropout_layer = 1 / 2, train_state = True,
               dropout_p = 1 / 2, kwargs = []\<rparr>,
             from_list [''cat''] [s1, s2] special_first), example_fs)"
proof -
  have "list_all (\<lambda>r. length r = nat 300) [replicate 300 ''1'']" by simp
  from assemble_ok [OF this, of demo_runtime "(s1, s2)" special_first "[''cat'']"]
  show ?thesis by (simp add: example_from_pretrained)
qed

text \<open>
  C10: whatever the arguments, an instance that \<open>from_pretrained\<close> returns has
  \<open>requires_grad\<close> true, dropout \<open>0.5\<close> and \<open>train_state\<close> true (the default of
  \<open>__init__\<close>); no argument of \<open>from_pretrained\<close> reaches these attributes.
\<close>

theorem from_pretrained_hyperparameters:
  assumes "from_pretrained rt name dims root' special_tokens special_first w
             = (Inr (self, vocab), w')"
  shows "requires_grad self = True \<and> dropout_p self = 1 / 2 \<and> train_state self = True"
proof -
  from from_pretrained_Inr [OF assms] obtain tokens embeddings where
    "assemble rt dims special_tokens special_first tokens embeddings = Inr (self, vocab)"
    by blast
  from assemble_Inr [OF this] show ?thesis by simp
qed

theorem from_pretrained_hyperparameters_witness:
  "\<exists>self vocab w'.
     from_pretrained demo_runtime ''1M'' 300 ''r'' (''<unk>'', ''<pad>'') True example_fs
       = (Inr (self, vocab), w')
     \<and> requires_grad self = True \<and> dropout_p self = 1 / 2 \<and> train_state self = True"
proof -
  obtain self vocab where
    e: "from_pretrained demo_runtime ''1M'' 300 ''r'' (''<unk>'', ''<pad>'') True example_fs
          = (Inr (self, vocab), example_fs)"
    using example_run by blast
  from from_pretrained_hyperparameters [OF e] e show ?thesis by blast
qed

text \<open>
  C2: in the vocabulary that \<open>from_pretrained\<close> builds from the tokens read from the
  pretrained file, with \<open>special_first\<close> the two special tokens have the ids 0 and 1 and
  the file tokens the ids that follow, in file order; without it the file tokens have
  the ids from 0 on and the two special tokens the last two ids.
\<close>

theorem from_pretrained_vocabulary_ids:
  assumes "from_pretrained rt name dims root' (s1, s2) special_first w = (Inr (self, vocab), w')"
  shows "\<exists>text tokens embeddings.
     w' (pretrained_path root' name dims) = Some text \<and>
     read_vectors rt [] [] (islice1 (file_lines text)) = Inr (tokens, embeddings) \<and>
     word_vocab self = vocab \<and> length vocab = length tokens + 2 \<and>
     (special_first \<longrightarrow>
        vocab ! 0 = s1 \<and> vocab ! 1 = s2 \<and> (\<forall>i<length tokens. vocab ! (i + 2) = tokens ! i)) \<and>
     (\<not> special_first \<longrightarrow>
        (\<forall>i<length tokens. vocab ! i = tokens ! i) \<and>
        vocab ! length tokens = s1 \<and> vocab ! (length tokens + 1) = s2)"
proof -
  from from_pretrained_Inr [OF assms] obtain content tokens embeddings where
    t: "w' (pretrained_path root' name dims) = Some content"
    and r: "read_vectors rt [] [] (islice1 (file_lines content)) = Inr (tokens, embeddings)"
    and a: "assemble rt dims (s1, s2) special_first tokens embeddings = Inr (self, vocab)"
    by blast
  from assemble_Inr [OF a] have v: "vocab = from_list tokens [s1, s2] special_first"
    and s: "word_vocab self = vocab"
    by simp_all
  have "length vocab = length tokens + 2"
    by (simp add: v from_list_def)
  moreover have "special_first \<longrightarrow>
        vocab ! 0 = s1 \<and> vocab ! 1 = s2 \<and> (\<forall>i<length tokens. vocab ! (i + 2) = tokens ! i)"
    by (simp add: v from_list_def)
  moreover have "\<not> special_first \<longrightarrow>
        (\<forall>i<length tokens. vocab ! i = tokens ! i) \<and>
        vocab ! length tokens = s1 \<and> vocab ! (length tokens + 1) = s2"
    by (simp add: v from_list_def nth_append)
  ultimately show ?thesis using t r s by blast
qed

theorem from_pretrained_vocabulary_ids_witness:
  "(\<exists>self vocab w'.
      from_pretrained demo_runtime ''1M'' 300 ''r'' (''<pad>'', ''<unk>'') True example_fs
        = (Inr (self, vocab), w')
      \<and> vocab ! 0 = ''<pad>'' \<and> vocab ! 1 = ''<unk>'' \<and> vocab ! 2 = ''cat'')
   \<and> (\<exists>self vocab w'.
      from_pretrained demo_runtime ''1M'' 300 ''r'' (''<pad>'', ''<unk>'') False example_fs
        = (Inr (self, vocab), w')
      \<and> vocab ! 0 = ''cat'' \<and> vocab ! 1 = ''<pad>'' \<and> vocab ! 2 = ''<unk>'')"
proof -
  have p: "example_fs (pretrained_path ''r'' ''1M'' 300) = Some example_vec_text"
    by (simp add: example_path example_fs_def)
  obtain self vocab where
    e: "from_pretrained demo_runtime ''1M'' 300 ''r'' (''<pad>'', ''<unk>'') True example_fs
          = (Inr (self, vocab), example_fs)"
    using example_run by blast
  from from_pretrained_vocabulary_ids [OF e] p example_read
  have "vocab ! 0 = ''<pad>'' \<and> vocab ! 1 = ''<unk>'' \<and> vocab ! 2 = ''cat''"
    by (auto simp: numeral_2_eq_2)
  with e have first: "\<exists>self vocab w'.
      from_pretrained demo_runtime ''1M'' 300 ''r'' (''<pad>'', ''<unk>'') True example_fs
        = (Inr (self, vocab), w')
      \<and> vocab ! 0 = ''<pad>'' \<and> vocab ! 1 = ''<unk>'' \<and> vocab ! 2 = ''cat''"
    by blast
  obtain self' vocab' where
    e': "from_pretrained demo_runtime ''1M'' 300 ''r'' (''<pad>'', ''<unk>'') False example_fs
          = (Inr (self', vocab'), example_fs)"
    using example_run by blast
  from from_pretrained_vocabulary_ids [OF e'] p example_read
  have "vocab' ! 0 = ''cat'' \<and> vocab' ! 1 = ''<pad>'' \<and> vocab' ! 2 = ''<unk>''"
    by (auto simp: numeral_2_eq_2)
  with e' first show ?thesis by blast
qed

text \<open>
  C3: the rows of the special tokens. On the example file and with the default special
  tokens \<open>("<pad>", "<unk>")\<close>, the row at the id of \<open><pad>\<close> is the row of random values
  and the row at the id of \<open><unk>\<close> is the row of zeros, for both values of
  \<open>special_first\<close>: the rows stand where the special tokens stand, but the random row
  belongs to the padding token and the zero row to the unknown token.
\<close>

theorem from_pretrained_default_special_rows:
  "map_sum id snd
     (fst (from_pretrained demo_runtime ''1M'' 300 ''r'' (''<pad>'', ''<unk>'') False example_fs))
     = Inr [''cat'', ''<pad>'', ''<unk>'']
   \<and> map_sum id (embed \<circ> fst)
     (fst (from_pretrained demo_runtime ''1M'' 300 ''r'' (''<pad>'', ''<unk>'') False example_fs))
     = Inr [replicate 300 ''1'', np_random_rand demo_runtime 300, np_zeros demo_runtime 300]
   \<and> map_sum id snd
     (fst (from_pretrained demo_runtime ''1M'' 300 ''r'' (''<pad>'', ''<unk>'') True example_fs))
     = Inr [''<pad>'', ''<unk>'', ''cat'']
   \<and> map_sum id (embed \<circ> fst)
     (fst (from_pretrained demo_runtime ''1M'' 300 ''r'' (''<pad>'', ''<unk>'') True example_fs))
     = Inr [np_random_rand demo_runtime 300, np_zeros demo_runtime 300, replicate 300 ''1'']
   \<and> np_random_rand demo_runtime 300 = replicate 300 ''0.5''
   \<and> np_zeros demo_runtime 300 = replicate 300 ''0.0''"
  unfolding example_run
  by (simp add: from_list_def special_rows_def np_zeros_def np_random_rand_def
      demo_runtime_def map_replicate_const)

text \<open>
  C6: a name outside the supported sources or a dimension outside the supported
  dimensions makes \<open>from_pretrained\<close> raise a \<open>ValueError\<close> and leave the file system as
  it was, whatever the download cache and the extraction would do; for a supported name
  and dimension the two checks raise nothing.
\<close>

theorem from_pretrained_validation:
  "(name \<notin> set (map fst urls) \<or> dims \<notin> set cls_dims \<longrightarrow>
      (\<exists>msg. from_pretrained rt name dims root' special_tokens special_first w
               = (Inl (ValueError msg), w)))
   \<and> (name \<in> set (map fst urls) \<and> dims \<in> set cls_dims \<longrightarrow> check_args name dims = Inr ())"
  by (auto simp: from_pretrained_def check_args_def)

theorem from_pretrained_validation_witness:
  "(''2M'' \<notin> set (map fst urls) \<and>
      (\<exists>msg. from_pretrained demo_runtime ''2M'' 300 ''r'' (''<pad>'', ''<unk>'') False example_fs
               = (Inl (ValueError msg), example_fs)))
   \<and> ((100 :: int) \<notin> set cls_dims \<and>
      (\<exists>msg. from_pretrained demo_runtime ''1M'' 100 ''r'' (''<pad>'', ''<unk>'') False example_fs
               = (Inl (ValueError msg), example_fs)))
   \<and> (''1M'' \<in> set (map fst urls) \<and> (300 :: int) \<in> set cls_dims \<and> check_args ''1M'' 300 = Inr ())"
proof -
  have a: "''2M'' \<notin> set (map fst urls)" and b: "(100 :: int) \<notin> set cls_dims"
    and c: "''1M'' \<in> set (map fst urls)" and d: "(300 :: int) \<in> set cls_dims"
    by (simp_all add: urls_def cls_dims_def)
  from a b c d
    from_pretrained_validation [of "''2M''" 300 demo_runtime "''r''" "(''<pad>'', ''<unk>'')" False example_fs]
    from_pretrained_validation [of "''1M''" 100 demo_runtime "''r''" "(''<pad>'', ''<unk>'')" False example_fs]
    from_pretrained_validation [of "''1M''" 300]
  show ?thesis by blast
qed

subsection \<open>Lookup\<close>

lemma gather_ok:
  "list_all (\<lambda>i. 0 \<le> i \<and> i < int (length params)) indices \<Longrightarrow>
     gather params indices = Inr (map (\<lambda>i. params ! nat i) indices)"
  by (simp add: gather_def)

lemma length_concat_rows:
  "\<forall>x\<in>set xs. length (f x) = d \<Longrightarrow> length (concat (map f xs)) = length xs * d"
  by (induction xs) simp_all

lemma example_instance_wf: "wf_instance example_instance"
  by (simp add: wf_instance_def example_instance_def)

text \<open>
  C4: for an instance that satisfies the invariant and an id array of shape \<open>S\<close> whose
  entries all lie in \<open>[0, vocab_size)\<close>, \<open>construct\<close> returns the dropout transform of the
  array of shape \<open>S + (embed_dim,)\<close> whose elements are, id by id in row-major order, the
  table rows of the ids.
\<close>

theorem construct_lookup:
  assumes "wf_instance self"
    and "prod_list (shape ids) = length (flat ids)"
    and "list_all (\<lambda>i. 0 \<le> i \<and> i < int (vocab_size self)) (flat ids)"
  shows "construct rt self ids =
     Inr (dropout rt \<lparr>shape = shape ids @ [embed_dim self],
                      flat = concat (map (\<lambda>i. embed self ! nat i) (flat ids))\<rparr>)"
proof -
  from assms(1) have len: "length (embed self) = vocab_size self"
    and rows: "\<forall>r\<in>set (embed self). length r = embed_dim self"
    by (simp_all add: wf_instance_def list_all_iff)
  from assms(3) len have g: "gather (embed self) (flat ids)
      = Inr (map (\<lambda>i. embed self ! nat i) (flat ids))"
    by (intro gather_ok) simp
  have "\<forall>i\<in>set (flat ids). length (embed self ! nat i) = embed_dim self"
  proof
    fix i assume "i \<in> set (flat ids)"
    with assms(3) len have "nat i < length (embed self)"
      by (auto simp: list_all_iff)
    then have "embed self ! nat i \<in> set (embed self)" by simp
    with rows show "length (embed self ! nat i) = embed_dim self" by blast
  qed
  then have "length (concat (map (\<lambda>i. embed self ! nat i) (flat ids)))
               = length (flat ids) * embed_dim self"
    by (rule length_concat_rows)
  with assms(2) have "reshape (concat (map (\<lambda>i. embed self ! nat i) (flat ids)))
                        (shape ids @ [embed_dim self])
      = Inr \<lparr>shape = shape ids @ [embed_dim self],
             flat = concat (map (\<lambda>i. embed self ! nat i) (flat ids))\<rparr>"
    by (simp add: reshape_def)
  with g show ?thesis
    by (simp add: construct_def Let_def)
qed

theorem construct_lookup_witness:
  "wf_instance example_instance
   \<and> construct demo_runtime example_instance \<lparr>shape = [2, 1], flat = [1, 0]\<rparr>
       = Inr \<lparr>shape = [2, 1, 2], flat = [''0.3'', ''0.4'', ''0.1'', ''0.2'']\<rparr>"
  using construct_lookup [OF example_instance_wf, of "\<lparr>shape = [2, 1], flat = [1, 0]\<rparr>" demo_runtime]
  by (simp add: example_instance_wf) (simp add: example_instance_def demo_runtime_def)



subsection \<open>Saving\<close>








subsection \<open>Saving, then loading\<close>



lemma load_Inr:
  assumes "load rt foldername root' w = Inr self"
  shows "\<exists>content tokens embeddings arr rg dp ts kw.
     w (os_path_join (save_folder root' foldername) [EMBED_FILENAME]) = Some content \<and>
     read_vectors rt [] [] (islice1 (file_lines content)) = Inr (tokens, embeddings) \<and>
     np_array embeddings = Inr arr \<and>
     init tokens arr rg dp ts kw = Inr self"
  using assms unfolding load_def Let_def save_folder_def [symmetric]
  by (auto simp: open_r_def from_list_def split: sum.splits option.splits prod.splits
      simp del: assert_exists.simps)









text \<open>
  C7 as stated fails for \<open>load\<close>: a vector file whose header declares three elements per
  row and whose lines have two each is loaded without error, as a table of two columns.
\<close>

theorem load_ignores_header_dimension:
  "map_sum id word_vocab (load demo_runtime ''f'' ''r'' short_rows_fs) = Inr [''a'', ''b'']
   \<and> map_sum id embed (load demo_runtime ''f'' ''r'' short_rows_fs)
       = Inr [[''1'', ''2''], [''3'', ''4'']]
   \<and> map_sum id embed_dim (load demo_runtime ''f'' ''r'' short_rows_fs) = Inr 2"
  by code_simp

text \<open>
  C7, as amended: \<open>load\<close> and \<open>from_pretrained\<close> return an instance only if every line
  after the first splits into a token and a vector text, the parser accepts the vector
  text of every line, the vectors all have one length (300 for \<open>from_pretrained\<close>), and
  the table holds the vector of every line, in file order; otherwise the whole call
  fails. What the header line declares is not compared with the lines.
\<close>

theorem malformed_line_aborts:
  "(load rt foldername root' w = Inr self \<longrightarrow>
      (\<exists>content.
         w (os_path_join (save_folder root' foldername) [EMBED_FILENAME]) = Some content \<and>
         list_all (\<lambda>l. length (split_maxsplit1 l) = 2) (islice1 (file_lines content)) \<and>
         map (\<lambda>l. np_fromstring rt (split_maxsplit1 l ! 1)) (islice1 (file_lines content))
           = map Inr (embed self) \<and>
         word_vocab self = map (\<lambda>l. split_maxsplit1 l ! 0) (islice1 (file_lines content)) \<and>
         list_all (\<lambda>r. length r = embed_dim self) (embed self)))
   \<and> (from_pretrained rt name dims cache_root special_tokens special_first w0
         = (Inr (self', vocab), w') \<longrightarrow>
      (\<exists>content rows.
         w' (pretrained_path cache_root name dims) = Some content \<and>
         list_all (\<lambda>l. length (split_maxsplit1 l) = 2) (islice1 (file_lines content)) \<and>
         map (\<lambda>l. np_fromstring rt (split_maxsplit1 l ! 1)) (islice1 (file_lines content))
           = map Inr rows \<and>
         list_all (\<lambda>r. length r = 300) rows \<and>
         embed self' = special_rows rt dims special_first rows))"
proof (intro conjI impI)
  assume "load rt foldername root' w = Inr self"
  from load_Inr [OF this] obtain content tokens embeddings arr rg dp ts kw where
    e: "w (os_path_join (save_folder root' foldername) [EMBED_FILENAME]) = Some content"
    and r: "read_vectors rt [] [] (islice1 (file_lines content)) = Inr (tokens, embeddings)"
    and a: "np_array embeddings = Inr arr"
    and i: "init tokens arr rg dp ts kw = Inr self"
    by blast
  from read_vectors_Inr [OF r] have
    two: "list_all (\<lambda>l. length (split_maxsplit1 l) = 2) (islice1 (file_lines content))"
    and tk: "tokens = map (\<lambda>l. split_maxsplit1 l ! 0) (islice1 (file_lines content))"
    and em: "map (\<lambda>l. np_fromstring rt (split_maxsplit1 l ! 1)) (islice1 (file_lines content))
               = map Inr embeddings"
    by auto
  from init_Inr [OF i] obtain n d rest where
    shp: "nd_shape arr = n # d # rest"
    and se: "embed self = nd_rows arr" and sd: "embed_dim self = d" and sv: "word_vocab self = tokens"
    by auto
  from np_array_Inr [OF a] shp have
    "nd_rows arr = embeddings" and "list_all (\<lambda>r. length r = d) embeddings"
    by (cases "embeddings = []", auto)+
  with se sd sv tk em two e
  show "\<exists>content.
         w (os_path_join (save_folder root' foldername) [EMBED_FILENAME]) = Some content \<and>
         list_all (\<lambda>l. length (split_maxsplit1 l) = 2) (islice1 (file_lines content)) \<and>
         map (\<lambda>l. np_fromstring rt (split_maxsplit1 l ! 1)) (islice1 (file_lines content))
           = map Inr (embed self) \<and>
         word_vocab self = map (\<lambda>l. split_maxsplit1 l ! 0) (islice1 (file_lines content)) \<and>
         list_all (\<lambda>r. length r = embed_dim self) (embed self)"
    by auto
next
  assume fp: "from_pretrained rt name dims cache_root special_tokens special_first w0
                = (Inr (self', vocab), w')"
  from from_pretrained_Inr [OF fp] obtain content tokens embeddings where
    c: "check_args name dims = Inr ()"
    and e: "w' (pretrained_path cache_root name dims) = Some content"
    and r: "read_vectors rt [] [] (islice1 (file_lines content)) = Inr (tokens, embeddings)"
    and a: "assemble rt dims special_tokens special_first tokens embeddings = Inr (self', vocab)"
    by blast
  from c have d: "dims = 300"
    by (simp add: check_args_def cls_dims_def split: if_splits)
  from read_vectors_Inr [OF r] have
    two: "list_all (\<lambda>l. length (split_maxsplit1 l) = 2) (islice1 (file_lines content))"
    and em: "map (\<lambda>l. np_fromstring rt (split_maxsplit1 l ! 1)) (islice1 (file_lines content))
               = map Inr embeddings"
    by auto
  from assemble_Inr [OF a] d have "list_all (\<lambda>r. length r = 300) embeddings"
    and "embed self' = special_rows rt dims special_first embeddings"
    by simp_all
  with e two em
  show "\<exists>content rows.
         w' (pretrained_path cache_root name dims) = Some content \<and>
         list_all (\<lambda>l. length (split_maxsplit1 l) = 2) (islice1 (file_lines content)) \<and>
         map (\<lambda>l. np_fromstring rt (split_maxsplit1 l ! 1)) (islice1 (file_lines content))
           = map Inr rows \<and>
         list_all (\<lambda>r. length r = 300) rows \<and>
         embed self' = special_rows rt dims special_first rows"
    by blast
qed

lemma short_rows_loaded:
  "map_sum id embed_dim (load demo_runtime ''f'' ''r'' short_rows_fs) = Inr 2"
  by code_simp

theorem malformed_line_aborts_witness:
  "(\<exists>self. load demo_runtime ''f'' ''r'' short_rows_fs = Inr self
      \<and> list_all (\<lambda>r. length r = embed_dim self) (embed self))
   \<and> (\<exists>self' vocab w' rows.
        from_pretrained demo_runtime ''1M'' 300 ''r'' (''<pad>'', ''<unk>'') False example_fs
          = (Inr (self', vocab), w')
        \<and> list_all (\<lambda>r. length r = 300) rows
        \<and> embed self' = special_rows demo_runtime 300 False rows)"
proof -
  obtain self where
    l: "load demo_runtime ''f'' ''r'' short_rows_fs = Inr self"
    using short_rows_loaded by (cases "load demo_runtime ''f'' ''r'' short_rows_fs") auto
  obtain self' vocab where
    p: "from_pretrained demo_runtime ''1M'' 300 ''r'' (''<pad>'', ''<unk>'') False example_fs
          = (Inr (self', vocab), example_fs)"
    using example_run by blast
  from l p
    malformed_line_aborts [where rt = demo_runtime and foldername = "''f''" and root' = "''r''"
      and w = short_rows_fs and self = self
      and name = "''1M''" and dims = 300 and cache_root = "''r''"
      and special_tokens = "(''<pad>'', ''<unk>'')" and special_first = False
      and ?w0.0 = example_fs and self' = self' and vocab = vocab and w' = example_fs]
  show ?thesis by blast
qed

subsection \<open>Well-formed results\<close>

lemma from_pretrained_wf:
  assumes "from_pretrained rt name dims root' special_tokens special_first w
             = (Inr (self, vocab), w')"
  shows "wf_instance self \<and> embed_dim self = 300"
proof -
  from from_pretrained_Inr [OF assms] obtain content tokens embeddings where
    c: "check_args name dims = Inr ()"
    and r: "read_vectors rt [] [] (islice1 (file_lines content)) = Inr (tokens, embeddings)"
    and a: "assemble rt dims special_tokens special_first tokens embeddings = Inr (self, vocab)"
    by blast
  from c have d: "dims = 300"
    by (simp add: check_args_def cls_dims_def split: if_splits)
  from read_vectors_length [OF r] have l: "length tokens = length embeddings" by simp
  from assemble_Inr [OF a] have
    v: "word_vocab self = from_list tokens [fst special_tokens, snd special_tokens] special_first"
    and n: "vocab_size self = length embeddings + 2"
    and e: "embed self = special_rows rt dims special_first embeddings"
    and k: "embed_dim self = nat dims"
    and rows: "list_all (\<lambda>r. length r = nat dims) embeddings"
    by simp_all
  from v l have "length (word_vocab self) = length embeddings + 2"
    by (simp add: from_list_def)
  moreover from e have "length (embed self) = length embeddings + 2"
    by (simp add: special_rows_def)
  moreover from e rows have "list_all (\<lambda>r. length r = nat dims) (embed self)"
    by (simp add: special_rows_def)
  ultimately show ?thesis
    using n k d by (simp add: wf_instance_def)
qed

lemma load_wf:
  assumes "load rt foldername root' w = Inr self"
  shows "wf_instance self"
proof -
  from load_Inr [OF assms] obtain content tokens embeddings arr rg dp ts kw where
    r: "read_vectors rt [] [] (islice1 (file_lines content)) = Inr (tokens, embeddings)"
    and a: "np_array embeddings = Inr arr"
    and i: "init tokens arr rg dp ts kw = Inr self"
    by blast
  from read_vectors_length [OF r] have l: "length tokens = length embeddings" by simp
  from init_Inr [OF i] obtain n d rest where
    shp: "nd_shape arr = n # d # rest"
    and s: "word_vocab self = tokens" "vocab_size self = n" "embed self = nd_rows arr"
      "embed_dim self = d"
    by auto
  from np_array_Inr [OF a] shp have
    "nd_rows arr = embeddings" and "n = length embeddings"
    and "list_all (\<lambda>r. length r = d) embeddings"
    by (cases "embeddings = []", auto)+
  with s l show ?thesis
    by (simp add: wf_instance_def)
qed

lemma from_pretrained_special_rows:
  assumes "from_pretrained rt name dims root' (s1, s2) special_first w = (Inr (self, vocab), w')"
  shows "length vocab = vocab_size self \<and> length (embed self) = vocab_size self \<and>
     2 \<le> vocab_size self \<and>
     (special_first \<longrightarrow>
        vocab ! 0 = s1 \<and> embed self ! 0 = np_random_rand rt 300 \<and>
        vocab ! 1 = s2 \<and> embed self ! 1 = np_zeros rt 300) \<and>
     (\<not> special_first \<longrightarrow>
        vocab ! (vocab_size self - 2) = s1 \<and>
        embed self ! (vocab_size self - 2) = np_random_rand rt 300 \<and>
        vocab ! (vocab_size self - 1) = s2 \<and>
        embed self ! (vocab_size self - 1) = np_zeros rt 300)"
proof -
  from from_pretrained_Inr [OF assms] obtain content tokens embeddings where
    c: "check_args name dims = Inr ()"
    and r: "read_vectors rt [] [] (islice1 (file_lines content)) = Inr (tokens, embeddings)"
    and a: "assemble rt dims (s1, s2) special_first tokens embeddings = Inr (self, vocab)"
    by blast
  from c have d: "dims = 300"
    by (simp add: check_args_def cls_dims_def split: if_splits)
  from read_vectors_length [OF r] have l: "length tokens = length embeddings" by simp
  from assemble_Inr [OF a] have
    v: "vocab = from_list tokens [s1, s2] special_first"
    and n: "vocab_size self = length embeddings + 2"
    and e: "embed self = special_rows rt dims special_first embeddings"
    by simp_all
  show ?thesis
    by (cases special_first)
      (simp_all add: v n e d l from_list_def special_rows_def nth_append)
qed

end
